theory Spec2Isabelle
  imports Complex_Main "HOL-Library.Multiset" "HOL-Library.Product_Lexorder"
begin

section \<open>Dates and the status classifier\<close>

text \<open>
  The source works on ECMAScript \<open>Date\<close> objects. A \<open>Date\<close> holds a time value: an
  integral number of milliseconds since the epoch, of magnitude at most
  \<open>8.64e15\<close>, or \<open>NaN\<close> (an ``Invalid Date''). All these numbers are integers below
  \<open>2 ^ 53\<close>, so the double arithmetic of the source is exact on them and they are
  modelled as \<open>int\<close>, with \<open>None\<close> for \<open>NaN\<close>.
\<close>

type_synonym number = "int option"

datatype Date = Date (getTime: number)

datatype Status = UPCOMING | LIVE | FINISHED

definition max_time :: int where
  "max_time = 8640000000000000"

definition TimeClip :: "number \<Rightarrow> number" where
  \<comment> \<open>ECMAScript \<open>TimeClip\<close>: a time value out of range becomes \<open>NaN\<close>.\<close>
  "TimeClip v = (case v of None \<Rightarrow> None
                 | Some t \<Rightarrow> if \<bar>t\<bar> > max_time then None else Some t)"

definition new_Date :: "number \<Rightarrow> Date" where
  \<comment> \<open>\<open>new Date(value)\<close> for a number.\<close>
  "new_Date v = Date (TimeClip v)"

definition num_add :: "number \<Rightarrow> number \<Rightarrow> number" where
  \<comment> \<open>\<open>x + y\<close> on numbers: \<open>NaN\<close> is absorbing.\<close>
  "num_add x y = (case (x, y) of (Some a, Some b) \<Rightarrow> Some (a + b) | _ \<Rightarrow> None)"

definition num_lt :: "number \<Rightarrow> number \<Rightarrow> bool" where
  \<comment> \<open>\<open>x < y\<close> on numbers: false as soon as one side is \<open>NaN\<close>.\<close>
  "num_lt x y = (case (x, y) of (Some a, Some b) \<Rightarrow> a < b | _ \<Rightarrow> False)"

definition num_ge :: "number \<Rightarrow> number \<Rightarrow> bool" where
  \<comment> \<open>\<open>x >= y\<close> on numbers: false as soon as one side is \<open>NaN\<close>.\<close>
  "num_ge x y = (case (x, y) of (Some a, Some b) \<Rightarrow> a \<ge> b | _ \<Rightarrow> False)"

definition date_lt :: "Date \<Rightarrow> Date \<Rightarrow> bool" where
  \<comment> \<open>\<open>a < b\<close> on Dates compares the time values.\<close>
  "date_lt a b = num_lt (getTime a) (getTime b)"

definition date_ge :: "Date \<Rightarrow> Date \<Rightarrow> bool" where
  "date_ge a b = num_ge (getTime a) (getTime b)"

definition matchDurationMs :: int where
  "matchDurationMs = 110 * 60 * 1000"

definition calculateStatus :: "Date \<Rightarrow> Date \<Rightarrow> Status" where
  "calculateStatus now kickoff =
     (if date_lt now kickoff then UPCOMING
      else if date_ge now kickoff \<and>
              date_lt now (new_Date (num_add (getTime kickoff) (Some matchDurationMs)))
           then LIVE
      else FINISHED)"

text \<open>
  An instant is a valid Date: its time value is a number within the range of
  \<open>TimeClip\<close>. Every Date that the runtime builds is an instant or the Invalid Date.
\<close>

definition instant :: "int \<Rightarrow> Date" where
  "instant t = Date (Some t)"

definition is_instant :: "Date \<Rightarrow> bool" where
  "is_instant d = (case getTime d of None \<Rightarrow> False | Some t \<Rightarrow> \<bar>t\<bar> \<le> max_time)"

definition Invalid_Date :: Date where
  "Invalid_Date = Date None"

text \<open>The order \<open>UPCOMING \<rightarrow> LIVE \<rightarrow> FINISHED\<close> of the specification, as a rank.\<close>

fun status_rank :: "Status \<Rightarrow> nat" where
  "status_rank UPCOMING = 0"
| "status_rank LIVE = 1"
| "status_rank FINISHED = 2"

text \<open>A duration of the specification, in milliseconds.\<close>

definition minutes :: "int \<Rightarrow> int" where
  "minutes m = m * 60 * 1000"

section \<open>The data model\<close>

text \<open>
  The types \<open>Team\<close>, \<open>RawMatch\<close>, \<open>LeagueKey\<close> and \<open>Match\<close> of the source. The
  field \<open>id\<close> of a team and of a match is written \<open>team_id\<close> and \<open>match_id\<close>.
  \<open>Match\<close> is \<open>RawMatch & { league, kickoff, status }\<close>: a record extension.
\<close>

record Team =
  team_id :: int
  name :: string

record Teams =
  home :: Team
  away :: Team

record RawMatch =
  match_id :: int
  date :: string
  time :: string
  teams :: Teams

datatype LeagueKey = Premier_League | La_Liga | Bundesliga | Serie_A

record Match = RawMatch +
  league :: LeagueKey
  kickoff :: Date
  status :: Status

section \<open>The status refresher\<close>

text \<open>
  The state of the hook \<open>useAllMatches\<close>: its three state variables. The interval
  callback replaces \<open>matches\<close> by \<open>prev.map((m) => ({...m, status:
  calculateStatus(now, m.kickoff)}))\<close> with \<open>now = new Date()\<close>, which the model
  takes as an argument.
\<close>

record hook_state =
  matches :: "Match list"
  loading :: bool
  error :: "string option"

definition refresh :: "Date \<Rightarrow> Match list \<Rightarrow> Match list" where
  "refresh now prev = map (\<lambda>m. m\<lparr>status := calculateStatus now (kickoff m)\<rparr>) prev"

definition tick :: "Date \<Rightarrow> hook_state \<Rightarrow> hook_state" where
  "tick now st = st\<lparr>matches := refresh now (matches st)\<rparr>"

text \<open>Teams and a constructor of matches, used to evaluate the model.\<close>

definition arsenal :: Team where "arsenal = \<lparr>team_id = 1, name = ''Arsenal''\<rparr>"
definition chelsea :: Team where "chelsea = \<lparr>team_id = 2, name = ''Chelsea''\<rparr>"
definition getafe :: Team where "getafe = \<lparr>team_id = 3, name = ''Getafe''\<rparr>"

definition fixture ::
  "int \<Rightarrow> Team \<Rightarrow> Team \<Rightarrow> LeagueKey \<Rightarrow> Date \<Rightarrow> Status \<Rightarrow> Match" where
  "fixture i h a l k s =
     \<lparr>match_id = i, date = ''05/03/2025'', time = ''09:05'',
      teams = \<lparr>home = h, away = a\<rparr>, league = l, kickoff = k, status = s\<rparr>"

section \<open>Pagination\<close>

text \<open>
  The page buttons of the component \<open>Pagination\<close>: a page number or the marker
  \<open>'...'\<close>. The \<open>for\<close> loops of \<open>getVisiblePages\<close> push the numbers \<open>i, i + 1, \<dots>, n\<close>
  onto the array \<open>pages\<close>.
\<close>

datatype page_item = Page int | Ellipsis

function push_range :: "int \<Rightarrow> int \<Rightarrow> page_item list \<Rightarrow> page_item list" where
  "push_range i n pages = (if i \<le> n then push_range (i + 1) n (pages @ [Page i]) else pages)"
  by pat_completeness auto
termination
  by (relation "measure (\<lambda>(i, n, pages). nat (n + 1 - i))") auto

declare push_range.simps [simp del]

definition getVisiblePages :: "int \<Rightarrow> int \<Rightarrow> page_item list" where
  "getVisiblePages currentPage totalPages =
     (let showEllipsis = totalPages > 7 in
      if \<not> showEllipsis then push_range 1 totalPages []
      else if currentPage \<le> 4 then push_range 1 5 [] @ [Ellipsis] @ [Page totalPages]
      else if currentPage \<ge> totalPages - 3
        then push_range (totalPages - 4) totalPages ([Page 1] @ [Ellipsis])
      else push_range (currentPage - 1) (currentPage + 1) ([Page 1] @ [Ellipsis])
             @ [Ellipsis] @ [Page totalPages])"

definition Pagination :: "int \<Rightarrow> int \<Rightarrow> page_item list option" where
  \<comment> \<open>The buttons the component renders: it renders nothing up to one page.\<close>
  "Pagination currentPage totalPages =
     (if totalPages \<le> 1 then None else Some (getVisiblePages currentPage totalPages))"

text \<open>
  The page of a league section. \<open>slice\<close> is \<open>Array.prototype.slice\<close> on integral
  arguments, a negative index counting from the end. \<open>leaguePages[leagueName] || 1\<close>
  reads the page of a league, a missing or zero entry giving page 1. The page
  count \<open>Math.ceil(filteredMatches.length / MATCHES_PER_PAGE)\<close> is a ceiling of a real
  quotient (the lengths of arrays are far below the precision of a double).
\<close>

definition MATCHES_PER_PAGE :: int where
  "MATCHES_PER_PAGE = 6"

definition slice :: "int \<Rightarrow> int \<Rightarrow> 'a list \<Rightarrow> 'a list" where
  "slice start end xs =
     (let len = int (length xs);
          k = (if start < 0 then max (len + start) 0 else min start len);
          final = (if end < 0 then max (len + end) 0 else min end len)
      in take (nat (final - k)) (drop (nat k) xs))"

definition currentPage :: "(string \<rightharpoonup> int) \<Rightarrow> string \<Rightarrow> int" where
  "currentPage leaguePages leagueName =
     (case leaguePages leagueName of None \<Rightarrow> 1 | Some p \<Rightarrow> if p = 0 then 1 else p)"

definition totalPages :: "'a list \<Rightarrow> int" where
  "totalPages filteredMatches =
     \<lceil>real (length filteredMatches) / real_of_int MATCHES_PER_PAGE\<rceil>"

definition startIndex :: "int \<Rightarrow> int" where
  "startIndex p = (p - 1) * MATCHES_PER_PAGE"

definition displayMatches :: "int \<Rightarrow> 'a list \<Rightarrow> 'a list" where
  "displayMatches p filteredMatches =
     slice (startIndex p) (startIndex p + MATCHES_PER_PAGE) filteredMatches"

definition reset_leaguePages :: "(string \<rightharpoonup> int) \<Rightarrow> (string \<rightharpoonup> int)" where
  \<comment> \<open>The effect run when a filter changes: \<open>setLeaguePages({})\<close>.\<close>
  "reset_leaguePages leaguePages = Map.empty"

section \<open>Sorted views\<close>

text \<open>
  \<open>filtered\<close> and \<open>teamMatches\<close> sort with the same comparator, \<open>compareMatches\<close> here.
  Its last branch subtracts two time values: the result is \<open>NaN\<close> when a kickoff is
  an Invalid Date (only the sign of the difference matters to the sort, and the
  sign of a difference of doubles is exact).

  \<open>Array.prototype.sort\<close> is a stable sort. It reads the comparator through
  \<open>SortCompare\<close>, which takes \<open>NaN\<close> as \<open>+0\<close>. For a consistent comparator the sorted
  array is determined (see \<open>sort_by_sort_key\<close>), and \<open>sort_by\<close> computes it by stable
  insertion. For a comparator that is not consistent (a \<open>NaN\<close> among its answers)
  ECMAScript leaves the order to the engine; insertion then leaves in place what
  the comparator calls equal to its neighbour, as the merge sorts of the engines
  do on short arrays. \<open>Set.has\<close> on the selection of leagues is membership; the
  selection \<open>'ALL'\<close> is written \<open>ALL'\<close>.
\<close>

definition num_sub :: "number \<Rightarrow> number \<Rightarrow> number" where
  "num_sub x y = (case (x, y) of (Some a, Some b) \<Rightarrow> Some (a - b) | _ \<Rightarrow> None)"

definition compareMatches :: "Match \<Rightarrow> Match \<Rightarrow> number" where
  "compareMatches a b =
     (if status a = FINISHED \<and> status b \<noteq> FINISHED then Some 1
      else if status b = FINISHED \<and> status a \<noteq> FINISHED then Some (- 1)
      else num_sub (getTime (kickoff a)) (getTime (kickoff b)))"

definition SortCompare :: "('a \<Rightarrow> 'a \<Rightarrow> number) \<Rightarrow> 'a \<Rightarrow> 'a \<Rightarrow> int" where
  "SortCompare comparefn x y = (case comparefn x y of None \<Rightarrow> 0 | Some v \<Rightarrow> v)"

fun insert_sorted :: "('a \<Rightarrow> 'a \<Rightarrow> number) \<Rightarrow> 'a \<Rightarrow> 'a list \<Rightarrow> 'a list" where
  "insert_sorted comparefn x [] = [x]"
| "insert_sorted comparefn x (y # ys) =
     (if SortCompare comparefn x y \<le> 0 then x # y # ys
      else y # insert_sorted comparefn x ys)"

definition sort_by :: "('a \<Rightarrow> 'a \<Rightarrow> number) \<Rightarrow> 'a list \<Rightarrow> 'a list" where
  "sort_by comparefn xs = foldr (insert_sorted comparefn) xs []"

datatype league_choice = ALL' | Only LeagueKey

definition league_selected :: "league_choice set \<Rightarrow> Match \<Rightarrow> bool" where
  "league_selected selectedLeagues m =
     (if ALL' \<in> selectedLeagues then True else Only (league m) \<in> selectedLeagues)"

definition filtered :: "league_choice set \<Rightarrow> Match list \<Rightarrow> Match list" where
  "filtered selectedLeagues ms =
     sort_by compareMatches (filter (league_selected selectedLeagues) ms)"

definition plays :: "string \<Rightarrow> Match \<Rightarrow> bool" where
  "plays selectedTeam match =
     (name (home (teams match)) = selectedTeam \<or> name (away (teams match)) = selectedTeam)"

definition teamMatches :: "string \<Rightarrow> Match list \<Rightarrow> Match list" where
  "teamMatches selectedTeam ms =
     (if selectedTeam = [] then []
      else slice 0 4 (sort_by compareMatches
             (filter (plays selectedTeam) ms)))"

text \<open>
  The order of the specification: \<open>FINISHED\<close> after the others and, within each
  group, ascending kickoff. It is the lexicographic order of \<open>finished_last_key\<close>.
\<close>

definition kickoff_ms :: "Match \<Rightarrow> int" where
  "kickoff_ms m = (case getTime (kickoff m) of None \<Rightarrow> 0 | Some t \<Rightarrow> t)"

definition finished_last_key :: "Match \<Rightarrow> bool \<times> int" where
  "finished_last_key m = (status m = FINISHED, kickoff_ms m)"

definition finished_last_order :: "Match \<Rightarrow> Match \<Rightarrow> bool" where
  "finished_last_order a b =
     ((status a = FINISHED \<longrightarrow> status b = FINISHED) \<and>
      ((status a = FINISHED) = (status b = FINISHED) \<longrightarrow> kickoff_ms a \<le> kickoff_ms b))"

text \<open>Collections used to evaluate the views.\<close>

definition sample_matches :: "Match list" where
  "sample_matches =
     [fixture 1 arsenal chelsea Premier_League (instant 1741140300000) FINISHED,
      fixture 2 getafe chelsea La_Liga (instant 1741226700000) UPCOMING,
      fixture 3 chelsea arsenal Premier_League (instant 1741053900000) FINISHED,
      fixture 4 arsenal getafe Premier_League (instant 1741183500000) LIVE]"

definition invalid_matches :: "Match list" where
  "invalid_matches =
     [fixture 1 arsenal chelsea Premier_League (instant 1741140300000) FINISHED,
      fixture 2 arsenal getafe Premier_League Invalid_Date FINISHED,
      fixture 3 chelsea arsenal Premier_League (instant 1741053900000) FINISHED]"

definition nameless :: Team where "nameless = \<lparr>team_id = 4, name = []\<rparr>"


section \<open>The timestamp parser\<close>

text \<open>
  \<open>parseWIBDate\<close> calls into the runtime: \<open>Number\<close> on strings, \<open>toString\<close> on the
  resulting numbers (doubles, of a type \<open>'n\<close> left open here), and \<open>new Date\<close> on a
  string, whose result outside the date-time format is implementation-defined.
  These three are parameters of the model, with the \<open>TypeError\<close> that the engine
  throws when a property of \<open>undefined\<close> is read (its message is the engine's).
  A thrown value is modelled by its \<open>message\<close> property, if it has one.
\<close>

datatype exn = Exn (message: "string option")

record 'n runtime =
  Number :: "string \<Rightarrow> 'n"
  toString :: "'n \<Rightarrow> string"
  Date_parse :: "string \<Rightarrow> Date"
  TypeError :: exn

text \<open>
  \<open>String.prototype.split\<close> with a one-character separator, array destructuring
  (\<open>undefined\<close> past the end of the array) and \<open>padStart\<close> with a one-character
  filler. The separators are ASCII, so splitting bytes and splitting UTF-16 code
  units cut a string at the same places.
\<close>

fun split :: "char \<Rightarrow> string \<Rightarrow> string list" where
  "split sep [] = [[]]"
| "split sep (c # cs) =
     (if c = sep then [] # split sep cs
      else (case split sep cs of w # ws \<Rightarrow> (c # w) # ws | [] \<Rightarrow> [[c]]))"

definition element :: "'a list \<Rightarrow> nat \<Rightarrow> 'a option" where
  "element xs i = (if i < length xs then Some (xs ! i) else None)"

definition padStart :: "nat \<Rightarrow> char \<Rightarrow> string \<Rightarrow> string" where
  "padStart n c s = replicate (n - length s) c @ s"

definition iso_string :: "'n runtime \<Rightarrow> 'n \<Rightarrow> 'n \<Rightarrow> 'n \<Rightarrow> 'n \<Rightarrow> 'n \<Rightarrow> string" where
  \<comment> \<open>The template literal of \<open>parseWIBDate\<close>.\<close>
  "iso_string rt y m d hh mm =
     padStart 4 CHR ''0'' (toString rt y) @ ''-'' @ padStart 2 CHR ''0'' (toString rt m) @ ''-'' @
     padStart 2 CHR ''0'' (toString rt d) @ ''T'' @ padStart 2 CHR ''0'' (toString rt hh) @ '':'' @
     padStart 2 CHR ''0'' (toString rt mm) @ '':00+07:00''"

definition parseWIBDate :: "'n runtime \<Rightarrow> string \<Rightarrow> string \<Rightarrow> exn + Date" where
  \<comment> \<open>\<open>y.toString()\<close> and its like throw when the array was too short.\<close>
  "parseWIBDate rt dateStr timeStr =
     (let dmy = map (Number rt) (split CHR ''/'' dateStr);
          hm = map (Number rt) (split CHR '':'' timeStr)
      in case (element dmy 2, element dmy 1, element dmy 0, element hm 0, element hm 1) of
           (Some y, Some m, Some d, Some hh, Some mm) \<Rightarrow>
             Inr (Date_parse rt (iso_string rt y m d hh mm))
         | _ \<Rightarrow> Inl (TypeError rt))"

section \<open>Match ingestion\<close>

text \<open>
  A league document as \<open>res.json()\<close> yields it. The source casts it to
  \<open>RawLeague\<close> without a check, so the document need not have the declared
  shape: \<open>metadata\<close> may be missing (\<open>None\<close>) and \<open>matches\<close> may fail to be an
  array (\<open>None\<close>). The code reads \<open>json.matches\<close> only, and \<open>json.matches.map\<close>
  throws when there is no array; the records of the array are read at their
  declared type. \<open>fetch\<close> rejects or yields a response; the response has the flag
  \<open>ok\<close>, and its \<open>json()\<close> rejects or yields the document.
\<close>

record Metadata =
  metadata_league :: string
  timezone :: "string option"

record RawLeague =
  metadata :: "Metadata option"
  raw_matches :: "RawMatch list option"

record Response =
  ok :: bool
  json :: "exn + RawLeague"

fun PUBLIC_FILES :: "LeagueKey \<Rightarrow> string" where
  "PUBLIC_FILES Premier_League = ''/premier_league.json''"
| "PUBLIC_FILES La_Liga = ''/la_liga.json''"
| "PUBLIC_FILES Bundesliga = ''/bundesliga.json''"
| "PUBLIC_FILES Serie_A = ''/serie_a.json''"

fun key_string :: "LeagueKey \<Rightarrow> string" where
  "key_string Premier_League = ''Premier League''"
| "key_string La_Liga = ''La Liga''"
| "key_string Bundesliga = ''Bundesliga''"
| "key_string Serie_A = ''Serie A''"

definition league_keys :: "LeagueKey list" where
  \<comment> \<open>\<open>Object.keys(PUBLIC_FILES)\<close>, in insertion order.\<close>
  "league_keys = [Premier_League, La_Liga, Bundesliga, Serie_A]"

definition to_Match :: "RawMatch \<Rightarrow> LeagueKey \<Rightarrow> Date \<Rightarrow> Status \<Rightarrow> Match" where
  \<comment> \<open>\<open>{ ...m, league, kickoff, status }\<close>\<close>
  "to_Match m l ko s =
     \<lparr>match_id = match_id m, date = date m, time = time m, teams = teams m,
      league = l, kickoff = ko, status = s\<rparr>"

fun map_matches :: "'n runtime \<Rightarrow> Date \<Rightarrow> LeagueKey \<Rightarrow> RawMatch list \<Rightarrow> exn + Match list" where
  "map_matches rt now l [] = Inr []"
| "map_matches rt now l (m # ms) =
     (case parseWIBDate rt (date m) (time m) of
        Inl e \<Rightarrow> Inl e
      | Inr ko \<Rightarrow>
          (case map_matches rt now l ms of
             Inl e \<Rightarrow> Inl e
           | Inr list \<Rightarrow> Inr (to_Match m l ko (calculateStatus now ko) # list)))"

definition load_league ::
  "'n runtime \<Rightarrow> (string \<Rightarrow> exn + Response) \<Rightarrow> Date \<Rightarrow> LeagueKey \<Rightarrow> exn + Match list" where
  \<comment> \<open>The asynchronous callback run for each league.\<close>
  "load_league rt fetch now l =
     (case fetch (PUBLIC_FILES l) of
        Inl e \<Rightarrow> Inl e
      | Inr res \<Rightarrow>
          if \<not> ok res then Inl (Exn (Some (''Gagal mengambil data '' @ key_string l)))
          else (case json res of
                  Inl e \<Rightarrow> Inl e
                | Inr doc \<Rightarrow>
                    (case raw_matches doc of
                       None \<Rightarrow> Inl (TypeError rt)
                     | Some ms \<Rightarrow> map_matches rt now l ms)))"

text \<open>
  \<open>Promise.all\<close> over the four tasks: it rejects with the reason of the task that
  rejects first, and otherwise fulfils with the results in the order of the keys.
  The tasks run concurrently; \<open>settled\<close> lists the leagues in the order in which
  their tasks settle.
\<close>

definition rejection :: "exn + 'a \<Rightarrow> exn option" where
  "rejection r = (case r of Inl e \<Rightarrow> Some e | Inr v \<Rightarrow> None)"

definition fulfilment :: "exn + 'a \<Rightarrow> 'a option" where
  "fulfilment r = (case r of Inl e \<Rightarrow> None | Inr v \<Rightarrow> Some v)"

definition Promise_all ::
  "LeagueKey list \<Rightarrow> (LeagueKey \<Rightarrow> exn + 'a) \<Rightarrow> LeagueKey list \<Rightarrow> exn + 'a list" where
  "Promise_all settled task keys =
     (case List.map_filter (\<lambda>l. rejection (task l)) (settled @ keys) of
        e # es \<Rightarrow> Inl e
      | [] \<Rightarrow> Inr (List.map_filter (\<lambda>l. fulfilment (task l)) keys))"

text \<open>
  The function \<open>load\<close> of the hook, as a transformer of the hook's state. \<open>now\<close> is
  the \<open>new Date()\<close> taken once at its start, \<open>cancelled\<close> the flag as the function
  reads it when the tasks have settled.
\<close>

definition load ::
  "'n runtime \<Rightarrow> (string \<Rightarrow> exn + Response) \<Rightarrow> Date \<Rightarrow> LeagueKey list \<Rightarrow> bool
     \<Rightarrow> hook_state \<Rightarrow> hook_state" where
  "load rt fetch now settled cancelled st =
     (let st1 =
        (case Promise_all settled (load_league rt fetch now) league_keys of
           Inr entries \<Rightarrow> if \<not> cancelled then st\<lparr>matches := concat entries\<rparr> else st
         | Inl e \<Rightarrow>
             if \<not> cancelled
             then st\<lparr>error := Some (case message e of Some s \<Rightarrow> s
                                                   | None \<Rightarrow> ''Terjadi kesalahan'')\<rparr>
             else st)
      in if \<not> cancelled then st1\<lparr>loading := False\<rparr> else st1)"

definition initial_state :: hook_state where
  "initial_state = \<lparr>matches = [], loading = True, error = None\<rparr>"


text \<open>
  Two names for the statements about the parser: the condition under which the
  destructured arrays are too short, and the Date that the parser builds from the
  fields otherwise.
\<close>

definition too_few_fields :: "string \<Rightarrow> string \<Rightarrow> bool" where
  "too_few_fields dateStr timeStr =
     (length (split CHR ''/'' dateStr) < 3 \<or> length (split CHR '':'' timeStr) < 2)"

definition parsed :: "'n runtime \<Rightarrow> string \<Rightarrow> string \<Rightarrow> Date" where
  "parsed rt dateStr timeStr =
     (let dmy = split CHR ''/'' dateStr; hm = split CHR '':'' timeStr
      in Date_parse rt
           (iso_string rt (Number rt (dmy ! 2)) (Number rt (dmy ! 1)) (Number rt (dmy ! 0))
              (Number rt (hm ! 0)) (Number rt (hm ! 1))))"

definition ingest :: "'n runtime \<Rightarrow> Date \<Rightarrow> LeagueKey \<Rightarrow> RawMatch \<Rightarrow> Match" where
  "ingest rt now l m =
     to_Match m l (parsed rt (date m) (time m))
       (calculateStatus now (parsed rt (date m) (time m)))"



section \<open>A runtime to evaluate the model\<close>

text \<open>
  An executable runtime, for evaluating the model at concrete inputs. Its numbers
  are the integral \<open>number\<close>s above. \<open>Number\<close> follows ECMAScript on the empty
  string and on strings of at most 15 decimal digits, and answers \<open>NaN\<close> on every
  other string (ECMAScript also reads signs, fractions, exponents, other radixes
  and surrounding white space; the evaluations below use none of these). \<open>new
  Date\<close> on a string reads the date-time format \<open>YYYY-MM-DDTHH:mm:ss+HH:mm\<close> and
  answers the Invalid Date on every other string; a day up to 31 is accepted in
  every month and counted on from the first of the month. The statements about
  every runtime do not depend on these choices.
\<close>

definition is_digit :: "char \<Rightarrow> bool" where
  "is_digit c = (c \<in> set ''0123456789'')"

definition digit_value :: "char \<Rightarrow> int" where
  "digit_value c = int (of_char c) - 48"

definition digits_value :: "string \<Rightarrow> int" where
  "digits_value s = foldl (\<lambda>a c. 10 * a + digit_value c) 0 s"

definition engine_Number :: "string \<Rightarrow> number" where
  "engine_Number s =
     (if s = [] then Some 0
      else if list_all is_digit s \<and> length s \<le> 15 then Some (digits_value s)
      else None)"

fun digits_of :: "nat \<Rightarrow> string" where
  "digits_of n =
     (if n < 10 then [''0123456789'' ! n]
      else digits_of (n div 10) @ [''0123456789'' ! (n mod 10)])"

declare digits_of.simps [simp del]

definition engine_toString :: "number \<Rightarrow> string" where
  "engine_toString v =
     (case v of None \<Rightarrow> ''NaN''
      | Some n \<Rightarrow> if n < 0 then CHR ''-'' # digits_of (nat (- n)) else digits_of (nat n))"

definition field :: "nat \<Rightarrow> nat \<Rightarrow> string \<Rightarrow> int option" where
  \<comment> \<open>The \<open>n\<close> decimal digits from position \<open>i\<close>.\<close>
  "field i n s =
     (let w = take n (drop i s)
      in if length w = n \<and> list_all is_digit w then Some (digits_value w) else None)"

definition days_from_civil :: "int \<Rightarrow> int \<Rightarrow> int \<Rightarrow> int" where
  \<comment> \<open>The day number, from the epoch, of a date of the proleptic Gregorian calendar.\<close>
  "days_from_civil y m d =
     (let y1 = (if m \<le> 2 then y - 1 else y);
          era = y1 div 400;
          yoe = y1 - era * 400;
          doy = (153 * (if m > 2 then m - 3 else m + 9) + 2) div 5 + d - 1;
          doe = yoe * 365 + yoe div 4 - yoe div 100 + doy
      in era * 146097 + doe - 719468)"

definition punctuation :: "string \<Rightarrow> bool" where
  "punctuation s =
     (length s = 25 \<and> s ! 4 = CHR ''-'' \<and> s ! 7 = CHR ''-'' \<and> s ! 10 = CHR ''T'' \<and>
      s ! 13 = CHR '':'' \<and> s ! 16 = CHR '':'' \<and>
      (s ! 19 = CHR ''+'' \<or> s ! 19 = CHR ''-'') \<and> s ! 22 = CHR '':'')"

definition engine_Date_parse :: "string \<Rightarrow> Date" where
  "engine_Date_parse s =
     (case (field 0 4 s, field 5 2 s, field 8 2 s, field 11 2 s,
            field 14 2 s, field 17 2 s, field 20 2 s, field 23 2 s) of
        (Some y, Some mo, Some d, Some h, Some mi, Some sec, Some oh, Some om) \<Rightarrow>
          if punctuation s \<and> 1 \<le> mo \<and> mo \<le> 12 \<and> 1 \<le> d \<and> d \<le> 31 \<and>
             (h \<le> 23 \<or> h = 24 \<and> mi = 0 \<and> sec = 0) \<and> mi \<le> 59 \<and> sec \<le> 59 \<and>
             oh \<le> 23 \<and> om \<le> 59
          then new_Date (Some
                 (days_from_civil y mo d * 86400000 + h * 3600000 + mi * 60000 + sec * 1000
                  - (if s ! 19 = CHR ''-'' then - 1 else 1) * (oh * 3600000 + om * 60000)))
          else Invalid_Date
      | _ \<Rightarrow> Invalid_Date)"

definition engine :: "number runtime" where
  "engine =
     \<lparr>Number = engine_Number, toString = engine_toString, Date_parse = engine_Date_parse,
      TypeError = Exn (Some ''Cannot read properties of undefined'')\<rparr>"

text \<open>
  Documents and fetch functions to evaluate the load: \<open>one_fails\<close> answers a
  response that is not \<open>ok\<close> for Serie A and a document of one match for the other
  leagues; \<open>serves ms\<close> answers the matches \<open>ms\<close> for the Premier League and
  documents without matches for the others; \<open>no_metadata\<close> answers for Serie A the
  document \<open>headless\<close>, which has one match and no metadata.
\<close>

definition raw :: "int \<Rightarrow> string \<Rightarrow> string \<Rightarrow> RawMatch" where
  "raw i dateStr timeStr =
     \<lparr>match_id = i, date = dateStr, time = timeStr, teams = \<lparr>home = arsenal, away = chelsea\<rparr>\<rparr>"

definition document :: "RawMatch list \<Rightarrow> Response" where
  "document ms =
     \<lparr>ok = True,
      json = Inr \<lparr>metadata = Some \<lparr>metadata_league = ''League'', timezone = None\<rparr>,
                  raw_matches = Some ms\<rparr>\<rparr>"


definition serves :: "RawMatch list \<Rightarrow> string \<Rightarrow> exn + Response" where
  "serves ms url =
     (if url = ''/premier_league.json'' then Inr (document ms) else Inr (document []))"




section \<open>Properties of the classifier\<close>

lemma calculateStatus_instant:
  "calculateStatus (instant n) (instant k) =
     (if n < k then UPCOMING
      else if n < k + matchDurationMs \<and> \<bar>k + matchDurationMs\<bar> \<le> max_time then LIVE
      else FINISHED)"
  by (simp add: calculateStatus_def instant_def date_lt_def date_ge_def num_lt_def
      num_ge_def num_add_def new_Date_def TimeClip_def)

lemma calculateStatus_Invalid_kickoff:
  "calculateStatus now Invalid_Date = FINISHED"
  by (simp add: calculateStatus_def Invalid_Date_def date_lt_def date_ge_def num_lt_def
      num_ge_def split: option.splits)

section \<open>The classifier on instants\<close>

text \<open>
  C1 (as amended). For every pair of instants \<open>now\<close> and \<open>kickoff\<close> such that
  \<open>kickoff + 110 minutes\<close> is still a representable instant (at most \<open>8.64e15\<close>
  milliseconds from the epoch), the classifier returns \<open>UPCOMING\<close> exactly when
  \<open>now < kickoff\<close>, \<open>LIVE\<close> exactly when \<open>kickoff \<le> now < kickoff + 110 minutes\<close> and
  \<open>FINISHED\<close> exactly when \<open>now \<ge> kickoff + 110 minutes\<close>; the instant of kickoff is
  \<open>LIVE\<close> and the instant \<open>kickoff + 110 minutes\<close> is \<open>FINISHED\<close>.
\<close>

theorem calculateStatus_half_open:
  assumes "\<bar>k\<bar> \<le> max_time" and "k + minutes 110 \<le> max_time"
  shows "(calculateStatus (instant n) (instant k) = UPCOMING \<longleftrightarrow> n < k) \<and>
         (calculateStatus (instant n) (instant k) = LIVE \<longleftrightarrow> k \<le> n \<and> n < k + minutes 110) \<and>
         (calculateStatus (instant n) (instant k) = FINISHED \<longleftrightarrow> n \<ge> k + minutes 110) \<and>
         calculateStatus (instant k) (instant k) = LIVE \<and>
         calculateStatus (instant (k + minutes 110)) (instant k) = FINISHED"
proof -
  have d: "matchDurationMs = minutes 110" "minutes 110 = 6600000"
    by (simp_all add: matchDurationMs_def minutes_def)
  have r: "\<bar>k + matchDurationMs\<bar> \<le> max_time"
    using assms by (simp add: d max_time_def)
  show ?thesis
    unfolding calculateStatus_instant using r by (auto simp: d)
qed

theorem calculateStatus_half_open_witness:
  "calculateStatus (instant 1741140300000) (instant 1741140300000) = LIVE \<and>
   calculateStatus (instant 1741146900000) (instant 1741140300000) = FINISHED \<and>
   (calculateStatus (instant 1741146899000) (instant 1741140300000) = LIVE) \<and>
   (calculateStatus (instant 1741140299000) (instant 1741140300000) = UPCOMING)"
proof -
  have a: "\<bar>1741140300000\<bar> \<le> max_time" "1741140300000 + minutes 110 \<le> max_time"
    by (simp_all add: max_time_def minutes_def)
  have m: "1741140300000 + minutes 110 = 1741146900000"
    by (simp add: minutes_def)
  show ?thesis
    using calculateStatus_half_open [OF a, of 1741146899000]
      calculateStatus_half_open [OF a, of 1741140299000]
    by (simp add: m)
qed

text \<open>
  The claim as stated fails at the end of the range of Dates: for the last
  instant as kickoff, \<open>new Date(kickoff.getTime() + matchDurationMs)\<close> is an Invalid
  Date, the comparison with it is false and the kickoff instant itself is
  classified \<open>FINISHED\<close>.
\<close>

theorem calculateStatus_last_instant_counterexample:
  "is_instant (instant 8640000000000000) \<and>
   calculateStatus (instant 8640000000000000) (instant 8640000000000000) = FINISHED"
proof
  show "is_instant (instant 8640000000000000)"
    by (simp add: is_instant_def instant_def max_time_def)
next
  show "calculateStatus (instant 8640000000000000) (instant 8640000000000000) = FINISHED"
    unfolding calculateStatus_instant by (simp add: max_time_def matchDurationMs_def)
qed

section \<open>Monotonicity\<close>

lemma calculateStatus_mono:
  assumes "n1 \<le> n2"
  shows "status_rank (calculateStatus (instant n1) ko)
           \<le> status_rank (calculateStatus (instant n2) ko)"
proof (cases ko)
  case (Date v)
  show ?thesis
  proof (cases v)
    case None
    with Date have "ko = Invalid_Date" by (simp add: Invalid_Date_def)
    then show ?thesis by (simp add: calculateStatus_Invalid_kickoff)
  next
    case (Some k)
    with Date have "ko = instant k" by (simp add: instant_def)
    then show ?thesis using assms by (simp add: calculateStatus_instant)
  qed
qed

text \<open>
  C3. For a fixed kickoff and instants \<open>now1 \<le> now2\<close> the classifier never moves
  backward in the order \<open>UPCOMING \<rightarrow> LIVE \<rightarrow> FINISHED\<close>; hence a refresher tick at
  \<open>now2\<close> lowers the status of no match, on a collection left by a tick at \<open>now1\<close>
  and on any collection whose statuses were computed at \<open>now1\<close>, as the load
  computes them.
\<close>

theorem status_never_regresses:
  assumes "n1 \<le> n2"
  shows "status_rank (calculateStatus (instant n1) ko)
           \<le> status_rank (calculateStatus (instant n2) ko) \<and>
         list_all2 (\<lambda>m m'. status_rank (status m) \<le> status_rank (status m'))
           (refresh (instant n1) ms) (refresh (instant n2) (refresh (instant n1) ms)) \<and>
         ((\<forall>m \<in> set ms. status m = calculateStatus (instant n1) (kickoff m)) \<longrightarrow>
          list_all2 (\<lambda>m m'. status_rank (status m) \<le> status_rank (status m'))
            ms (refresh (instant n2) ms))"
proof (intro conjI impI)
  show "status_rank (calculateStatus (instant n1) ko)
          \<le> status_rank (calculateStatus (instant n2) ko)"
    using assms by (rule calculateStatus_mono)
next
  show "list_all2 (\<lambda>m m'. status_rank (status m) \<le> status_rank (status m'))
          (refresh (instant n1) ms) (refresh (instant n2) (refresh (instant n1) ms))"
    using assms
    by (simp add: refresh_def list_all2_map1 list_all2_map2 list_all2_same
        calculateStatus_mono)
next
  assume "\<forall>m \<in> set ms. status m = calculateStatus (instant n1) (kickoff m)"
  then show "list_all2 (\<lambda>m m'. status_rank (status m) \<le> status_rank (status m'))
          ms (refresh (instant n2) ms)"
    using assms
    by (simp add: refresh_def list_all2_map2 list_all2_same calculateStatus_mono)
qed

theorem status_never_regresses_witness:
  "status_rank (calculateStatus (instant 1741140299000) (instant 1741140300000))
     \<le> status_rank (calculateStatus (instant 1741146900000) (instant 1741140300000)) \<and>
   list_all2 (\<lambda>m m'. status_rank (status m) \<le> status_rank (status m'))
     (refresh (instant 1741140299000)
        [fixture 7 arsenal chelsea Premier_League (instant 1741140300000) LIVE])
     (refresh (instant 1741146900000) (refresh (instant 1741140299000)
        [fixture 7 arsenal chelsea Premier_League (instant 1741140300000) LIVE])) \<and>
   list_all2 (\<lambda>m m'. status_rank (status m) \<le> status_rank (status m'))
     [fixture 7 arsenal chelsea Premier_League (instant 1741140300000) UPCOMING]
     (refresh (instant 1741146900000)
        [fixture 7 arsenal chelsea Premier_League (instant 1741140300000) UPCOMING])"
proof -
  let ?ms = "[fixture 7 arsenal chelsea Premier_League (instant 1741140300000) UPCOMING]"
  have h: "(1741140299000::int) \<le> 1741146900000" by simp
  have c: "calculateStatus (instant 1741140299000) (instant 1741140300000) = UPCOMING"
    by (simp add: calculateStatus_instant)
  have u: "\<forall>m \<in> set ?ms. status m = calculateStatus (instant 1741140299000) (kickoff m)"
    by (simp add: fixture_def c)
  note t = status_never_regresses [OF h]
  from t [of "instant 1741140300000"
      "[fixture 7 arsenal chelsea Premier_League (instant 1741140300000) LIVE]"]
    t [of "instant 1741140300000" ?ms] u
  show ?thesis by blast
qed

section \<open>The refresher changes the status only\<close>

text \<open>
  C6. A refresher tick keeps the length and order of the collection and, in every
  match, the id, date, time, teams, league and kickoff; the new status is the
  classifier's result for the fresh \<open>now\<close> and the stored kickoff. The tick reads
  nothing but \<open>now\<close> and the previous collection, and leaves the loading flag and
  the error of the hook as they were.
\<close>

theorem tick_frame:
  "length (matches (tick now st)) = length (matches st) \<and>
   list_all2 (\<lambda>m m'.
       match_id m' = match_id m \<and> date m' = date m \<and> time m' = time m \<and>
       teams m' = teams m \<and> league m' = league m \<and> kickoff m' = kickoff m \<and>
       status m' = calculateStatus now (kickoff m))
     (matches st) (matches (tick now st)) \<and>
   loading (tick now st) = loading st \<and> error (tick now st) = error st"
  by (simp add: tick_def refresh_def list_all2_map2 list_all2_same)

theorem tick_frame_witness:
  "matches (tick (instant 1741146900000)
      \<lparr>matches = [fixture 7 arsenal chelsea Premier_League (instant 1741140300000) LIVE],
       loading = False, error = None\<rparr>)
   = [fixture 7 arsenal chelsea Premier_League (instant 1741140300000) FINISHED]"
proof -
  let ?st = "\<lparr>matches = [fixture 7 arsenal chelsea Premier_League (instant 1741140300000) LIVE],
       loading = False, error = None\<rparr>"
  have c: "calculateStatus (instant 1741146900000) (instant 1741140300000) = FINISHED"
    by (simp add: calculateStatus_instant matchDurationMs_def)
  obtain m' where m': "matches (tick (instant 1741146900000) ?st) = [m']"
    using tick_frame [of "instant 1741146900000" ?st]
    by (cases "matches (tick (instant 1741146900000) ?st)") auto
  have "m' = fixture 7 arsenal chelsea Premier_League (instant 1741140300000) FINISHED"
    using tick_frame [of "instant 1741146900000" ?st] m' c
    by (simp add: fixture_def)
  with m' show ?thesis by simp
qed

section \<open>Pagination arithmetic\<close>

lemma page_bound: "((p - 1) * 6 < (n::int)) = (p \<le> (n + 5) div 6)"
  by presburger

lemma totalPages_div: "totalPages xs = (int (length xs) + 5) div 6"
  unfolding totalPages_def MATCHES_PER_PAGE_def by linarith

lemma displayMatches_eq:
  "1 \<le> p \<Longrightarrow> displayMatches p xs = take 6 (drop (nat ((p - 1) * 6)) xs)"
  by (auto simp: displayMatches_def slice_def startIndex_def MATCHES_PER_PAGE_def Let_def min_def)

lemma displayMatches_nonempty:
  assumes "1 \<le> p"
  shows "displayMatches p xs \<noteq> [] \<longleftrightarrow> p \<le> totalPages xs"
proof -
  have "displayMatches p xs \<noteq> [] \<longleftrightarrow> nat ((p - 1) * 6) < length xs"
    using assms by (simp add: displayMatches_eq not_le)
  also have "\<dots> \<longleftrightarrow> (p - 1) * 6 < int (length xs)"
    using assms by (simp add: nat_less_iff)
  also have "\<dots> \<longleftrightarrow> p \<le> (int (length xs) + 5) div 6"
    by (rule page_bound)
  also have "\<dots> \<longleftrightarrow> p \<le> totalPages xs"
    by (simp add: totalPages_div)
  finally show ?thesis .
qed

text \<open>
  C8. The page count of a refined list is \<open>ceil(matchCount / 6)\<close>; pages are
  numbered from 1 and page \<open>p\<close> holds the elements at the indices \<open>(p - 1) * 6\<close> to
  \<open>p * 6 - 1\<close> that the list has, so a page is non-empty exactly up to the page
  count; a change of filter resets the pages, the current page is then 1, and page
  1 of a non-empty list is non-empty.
\<close>

theorem pagination_arithmetic:
  assumes "1 \<le> p"
  shows "totalPages xs = \<lceil>real (length xs) / 6\<rceil> \<and>
         totalPages xs = (int (length xs) + 5) div 6 \<and>
         length (displayMatches p xs) = min 6 (length xs - nat ((p - 1) * 6)) \<and>
         (\<forall>i < length (displayMatches p xs).
            displayMatches p xs ! i = xs ! (nat ((p - 1) * 6) + i)) \<and>
         (displayMatches p xs \<noteq> [] \<longleftrightarrow> p \<le> totalPages xs) \<and>
         currentPage (reset_leaguePages leaguePages) leagueName = 1 \<and>
         (xs \<noteq> [] \<longrightarrow>
            displayMatches (currentPage (reset_leaguePages leaguePages) leagueName) xs \<noteq> [])"
proof -
  have c: "currentPage (reset_leaguePages leaguePages) leagueName = 1"
    by (simp add: currentPage_def reset_leaguePages_def)
  have t: "totalPages xs = \<lceil>real (length xs) / 6\<rceil>"
    by (simp add: totalPages_def MATCHES_PER_PAGE_def)
  have one: "xs \<noteq> [] \<longrightarrow> displayMatches 1 xs \<noteq> []"
    by (simp add: displayMatches_eq)
  have l: "length (displayMatches p xs) = min 6 (length xs - nat ((p - 1) * 6))"
    using assms by (simp add: displayMatches_eq min.commute)
  have n: "\<forall>i < length (displayMatches p xs).
            displayMatches p xs ! i = xs ! (nat ((p - 1) * 6) + i)"
    using assms by (auto simp: displayMatches_eq)
  show ?thesis
    using c t one l n displayMatches_nonempty [OF assms, of xs] totalPages_div [of xs]
    by simp
qed

theorem pagination_arithmetic_witness:
  "totalPages [10, 11, 12, 13, 14, 15, 16, 17 :: nat] = 2 \<and>
   displayMatches 2 [10, 11, 12, 13, 14, 15, 16, 17 :: nat] = [16, 17] \<and>
   displayMatches 1 [10, 11, 12, 13, 14, 15, 16, 17 :: nat] \<noteq> []"
proof -
  let ?xs = "[10, 11, 12, 13, 14, 15, 16, 17 :: nat]"
  have h1: "(1::int) \<le> 1" and h2: "(1::int) \<le> 2" by simp_all
  note p1 = pagination_arithmetic [OF h1, of ?xs]
  note p2 = pagination_arithmetic [OF h2, of ?xs]
  have t: "totalPages ?xs = 2" using p2 by simp
  have l: "length (displayMatches 2 ?xs) = 2" using p2 by simp
  have "displayMatches 2 ?xs ! 0 = 16" "displayMatches 2 ?xs ! 1 = 17"
    using p2 l by simp_all
  with l have d: "displayMatches 2 ?xs = [16, 17]"
    by (cases "displayMatches 2 ?xs"; cases "tl (displayMatches 2 ?xs)") auto
  have "displayMatches 1 ?xs \<noteq> []" using p1 t by simp
  with t d show ?thesis by simp
qed

section \<open>The page buttons\<close>

lemma push_range_eq: "push_range i n pages = pages @ map Page [i..n]"
proof (induction i n pages rule: push_range.induct)
  case (1 i n pages)
  show ?case
  proof (cases "i \<le> n")
    case True
    then show ?thesis using 1 by (subst push_range.simps) (simp add: upto_rec1)
  next
    case False
    then show ?thesis by (subst push_range.simps) simp
  qed
qed

lemma getVisiblePages_policy:
  "getVisiblePages p t =
     (if t \<le> 7 then map Page [1..t]
      else if p \<le> 4 then [Page 1, Page 2, Page 3, Page 4, Page 5, Ellipsis, Page t]
      else if p \<ge> t - 3
        then [Page 1, Ellipsis, Page (t - 4), Page (t - 3), Page (t - 2), Page (t - 1), Page t]
      else [Page 1, Ellipsis, Page (p - 1), Page p, Page (p + 1), Ellipsis, Page t])"
proof -
  have a: "[1..5] = [1, 2, 3, 4, 5::int]" by (simp add: upto_rec1)
  have b: "[t - 4..t] = [t - 4, t - 3, t - 2, t - 1, t]" by (simp add: upto_rec1)
  have c: "[p - 1..p + 1] = [p - 1, p, p + 1]" by (simp add: upto_rec1)
  show ?thesis
  proof (cases "t \<le> 7")
    case True
    then show ?thesis by (simp add: getVisiblePages_def push_range_eq)
  next
    case False
    then show ?thesis by (simp add: getVisiblePages_def push_range_eq a b c)
  qed
qed

text \<open>
  C9 (as amended). For every \<open>totalPages \<ge> 2\<close> and every current page \<open>p\<close> (those
  with \<open>1 \<le> p \<le> totalPages\<close> among them), the component shows all the pages
  \<open>1..totalPages\<close> up to 7 pages; beyond, it shows pages 1 to 5, an ellipsis and the
  last page when \<open>p \<le> 4\<close>; page 1, an ellipsis and the last five pages when
  \<open>p \<ge> totalPages - 3\<close>; and otherwise page 1, an ellipsis, the pages \<open>p - 1\<close>, \<open>p\<close>,
  \<open>p + 1\<close>, an ellipsis and the last page. Up to one page the component renders
  nothing, and there is no page list.
\<close>

theorem Pagination_policy:
  "Pagination p t =
     (if t \<le> 1 then None
      else Some
        (if t \<le> 7 then map Page [1..t]
         else if p \<le> 4 then [Page 1, Page 2, Page 3, Page 4, Page 5, Ellipsis, Page t]
         else if p \<ge> t - 3
           then [Page 1, Ellipsis, Page (t - 4), Page (t - 3), Page (t - 2), Page (t - 1),
                 Page t]
         else [Page 1, Ellipsis, Page (p - 1), Page p, Page (p + 1), Ellipsis, Page t]))"
  by (simp only: Pagination_def getVisiblePages_policy)

theorem Pagination_policy_witness:
  "Pagination 2 3 = Some [Page 1, Page 2, Page 3] \<and>
   Pagination 3 10 = Some [Page 1, Page 2, Page 3, Page 4, Page 5, Ellipsis, Page 10] \<and>
   Pagination 8 10 = Some [Page 1, Ellipsis, Page 6, Page 7, Page 8, Page 9, Page 10] \<and>
   Pagination 5 10 = Some [Page 1, Ellipsis, Page 4, Page 5, Page 6, Ellipsis, Page 10] \<and>
   Pagination 1 2 = Some [Page 1, Page 2]"
proof -
  have u: "[1..3] = [1, 2, 3::int]" "[1..2] = [1, 2::int]" by (simp_all add: upto_rec1)
  show ?thesis
    using Pagination_policy [of 2 3] Pagination_policy [of 3 10]
      Pagination_policy [of 8 10] Pagination_policy [of 5 10] Pagination_policy [of 1 2]
    by (simp add: u)
qed

text \<open>
  The claim as stated includes \<open>totalPages = 1\<close>, where it has the list of the
  single page 1 shown. The closure \<open>getVisiblePages\<close> would return that list, but
  the component returns \<open>null\<close> before it calls the closure: nothing is shown.
\<close>

theorem Pagination_single_page_counterexample:
  "Pagination 1 1 = None \<and> getVisiblePages 1 1 = [Page 1]"
proof
  show "Pagination 1 1 = None"
    by (simp add: Pagination_def)
next
  have "[1..1] = [1::int]" by (simp add: upto_rec1)
  then show "getVisiblePages 1 1 = [Page 1]"
    by (simp add: getVisiblePages_policy)
qed

section \<open>The sort is the stable sort by the key of the specification\<close>

lemma insert_sorted_insort_key:
  fixes key :: "'a \<Rightarrow> 'k::linorder"
  assumes "\<And>y. y \<in> set ys \<Longrightarrow> (SortCompare cmp x y \<le> 0) = (key x \<le> key y)"
  shows "insert_sorted cmp x ys = insort_key key x ys"
  using assms by (induction ys) auto

lemma sort_by_sort_key:
  fixes key :: "'a \<Rightarrow> 'k::linorder"
  assumes "\<And>x y. x \<in> set xs \<Longrightarrow> y \<in> set xs \<Longrightarrow> (SortCompare cmp x y \<le> 0) = (key x \<le> key y)"
  shows "sort_by cmp xs = sort_key key xs"
  using assms
proof (induction xs)
  case Nil
  then show ?case by (simp add: sort_by_def)
next
  case (Cons x xs)
  have ih: "sort_by cmp xs = sort_key key xs"
    using Cons by simp
  have "insert_sorted cmp x (sort_key key xs) = insort_key key x (sort_key key xs)"
    by (rule insert_sorted_insort_key) (simp add: Cons.prems)
  then show ?case
    using ih by (simp add: sort_by_def sort_key_def)
qed

lemma compareMatches_key:
  assumes "kickoff a \<noteq> Invalid_Date" "kickoff b \<noteq> Invalid_Date"
  shows "(SortCompare compareMatches a b \<le> 0) = (finished_last_key a \<le> finished_last_key b)"
proof -
  obtain s t where "getTime (kickoff a) = Some s" "getTime (kickoff b) = Some t"
    using assms by (cases "kickoff a"; cases "kickoff b") (auto simp: Invalid_Date_def)
  then show ?thesis
    by (auto simp: SortCompare_def compareMatches_def finished_last_key_def kickoff_ms_def
        num_sub_def less_eq_prod_def)
qed

lemma finished_last_key_order:
  "(finished_last_key a \<le> finished_last_key b) = finished_last_order a b"
  by (auto simp: finished_last_key_def finished_last_order_def less_eq_prod_def)

lemma sort_by_compareMatches:
  assumes "\<forall>m \<in> set xs. kickoff m \<noteq> Invalid_Date"
  shows "sort_by compareMatches xs = sort_key finished_last_key xs"
  using assms by (intro sort_by_sort_key compareMatches_key) auto

lemma sorted_finished_last:
  "sorted_wrt finished_last_order (sort_key finished_last_key xs)"
proof -
  have "sorted (map finished_last_key (sort_key finished_last_key xs))"
    by (rule sorted_sort_key)
  then show ?thesis
    by (simp add: sorted_map finished_last_key_order)
qed

lemma slice_take: "slice 0 (int n) xs = take n xs"
  by (simp add: slice_def Let_def min_def)

lemmas eval_sort =
  filtered_def teamMatches_def sort_by_def league_selected_def plays_def fixture_def
  SortCompare_def compareMatches_def num_sub_def instant_def Invalid_Date_def
  arsenal_def chelsea_def getafe_def slice_def

section \<open>The league-filtered sorted list\<close>

text \<open>
  C4 (as amended). For every match collection in which no kickoff is an Invalid
  Date, in the league-filtered sorted list every \<open>FINISHED\<close> match comes after every
  match that is not \<open>FINISHED\<close>, and within each of the two groups the kickoffs
  are in non-decreasing order; the list is a rearrangement of the matches of the
  selected leagues, and the sort is stable: the matches of one sort rank are in
  their input order.
\<close>

theorem filtered_finished_last:
  assumes "\<forall>m \<in> set ms. kickoff m \<noteq> Invalid_Date"
  shows "sorted_wrt finished_last_order (filtered sel ms) \<and>
         mset (filtered sel ms) = mset (filter (league_selected sel) ms) \<and>
         (\<forall>k. filter (\<lambda>m. finished_last_key m = k) (filtered sel ms)
               = filter (\<lambda>m. finished_last_key m = k) (filter (league_selected sel) ms))"
proof -
  have "\<forall>m \<in> set (filter (league_selected sel) ms). kickoff m \<noteq> Invalid_Date"
    using assms by simp
  then have "filtered sel ms = sort_key finished_last_key (filter (league_selected sel) ms)"
    unfolding filtered_def by (rule sort_by_compareMatches)
  then show ?thesis
    by (simp add: sorted_finished_last sort_key_stable)
qed

theorem filtered_finished_last_witness:
  "filtered {ALL'} sample_matches =
     [fixture 4 arsenal getafe Premier_League (instant 1741183500000) LIVE,
      fixture 2 getafe chelsea La_Liga (instant 1741226700000) UPCOMING,
      fixture 3 chelsea arsenal Premier_League (instant 1741053900000) FINISHED,
      fixture 1 arsenal chelsea Premier_League (instant 1741140300000) FINISHED] \<and>
   sorted_wrt finished_last_order (filtered {ALL'} sample_matches) \<and>
   mset (filtered {Only La_Liga} sample_matches)
     = {#fixture 2 getafe chelsea La_Liga (instant 1741226700000) UPCOMING#}"
proof -
  have h: "\<forall>m \<in> set sample_matches. kickoff m \<noteq> Invalid_Date"
    by (simp add: sample_matches_def fixture_def instant_def Invalid_Date_def)
  have e: "filtered {ALL'} sample_matches =
     [fixture 4 arsenal getafe Premier_League (instant 1741183500000) LIVE,
      fixture 2 getafe chelsea La_Liga (instant 1741226700000) UPCOMING,
      fixture 3 chelsea arsenal Premier_League (instant 1741053900000) FINISHED,
      fixture 1 arsenal chelsea Premier_League (instant 1741140300000) FINISHED]"
    by (simp add: sample_matches_def eval_sort)
  have f: "filter (league_selected {Only La_Liga}) sample_matches
             = [fixture 2 getafe chelsea La_Liga (instant 1741226700000) UPCOMING]"
    by (simp add: sample_matches_def league_selected_def fixture_def)
  show ?thesis
    using filtered_finished_last [OF h, of "{ALL'}"]
      filtered_finished_last [OF h, of "{Only La_Liga}"] e f
    by simp
qed

text \<open>
  The claim as stated, for every collection, fails when a kickoff is an Invalid
  Date: the comparator answers \<open>NaN\<close> against that match, the sort takes it as
  equal to both its neighbours, and two \<open>FINISHED\<close> matches stay in decreasing
  order of kickoff.
\<close>

theorem filtered_invalid_kickoff_counterexample:
  "filtered {ALL'} invalid_matches = invalid_matches \<and>
   status (invalid_matches ! 0) = FINISHED \<and> status (invalid_matches ! 2) = FINISHED \<and>
   date_lt (kickoff (invalid_matches ! 2)) (kickoff (invalid_matches ! 0))"
  by (simp add: invalid_matches_def eval_sort date_lt_def num_lt_def)

section \<open>The team spotlight\<close>

text \<open>
  C7 (as amended). For every non-empty team name and every match collection in
  which no kickoff is an Invalid Date, the spotlight holds only matches of the
  collection in which the team plays home or away, is ordered by the finished-last
  rule, and is the first 4 elements of the qualifying matches sorted by that rule:
  its length is the minimum of 4 and the number of qualifying matches. For the
  empty team name the spotlight is empty.
\<close>

theorem teamMatches_spotlight:
  assumes "selectedTeam \<noteq> []" and "\<forall>m \<in> set ms. kickoff m \<noteq> Invalid_Date"
  shows "teamMatches selectedTeam ms
           = take 4 (sort_key finished_last_key (filter (plays selectedTeam) ms)) \<and>
         (\<forall>m \<in> set (teamMatches selectedTeam ms). m \<in> set ms \<and> plays selectedTeam m) \<and>
         sorted_wrt finished_last_order (teamMatches selectedTeam ms) \<and>
         length (teamMatches selectedTeam ms)
           = min 4 (length (filter (plays selectedTeam) ms)) \<and>
         teamMatches [] ms = []"
proof -
  let ?q = "filter (plays selectedTeam) ms"
  have "\<forall>m \<in> set ?q. kickoff m \<noteq> Invalid_Date"
    using assms(2) by simp
  then have s: "sort_by compareMatches ?q = sort_key finished_last_key ?q"
    by (rule sort_by_compareMatches)
  have t: "teamMatches selectedTeam ms = take 4 (sort_key finished_last_key ?q)"
    using assms(1) slice_take [of 4] by (simp add: teamMatches_def s)
  have "set (take 4 (sort_key finished_last_key ?q)) \<subseteq> set ?q"
    using set_take_subset [of 4 "sort_key finished_last_key ?q"] by simp
  then have m: "\<forall>m \<in> set (teamMatches selectedTeam ms). m \<in> set ms \<and> plays selectedTeam m"
    unfolding t by auto
  have o: "sorted_wrt finished_last_order (teamMatches selectedTeam ms)"
    unfolding t by (rule sorted_wrt_take) (rule sorted_finished_last)
  have l: "length (teamMatches selectedTeam ms) = min 4 (length ?q)"
    unfolding t by (simp add: min.commute)
  have e: "teamMatches [] ms = []"
    by (simp add: teamMatches_def)
  from t m o l e show ?thesis by blast
qed

theorem teamMatches_spotlight_witness:
  "teamMatches ''Arsenal'' sample_matches =
     [fixture 4 arsenal getafe Premier_League (instant 1741183500000) LIVE,
      fixture 3 chelsea arsenal Premier_League (instant 1741053900000) FINISHED,
      fixture 1 arsenal chelsea Premier_League (instant 1741140300000) FINISHED] \<and>
   sorted_wrt finished_last_order (teamMatches ''Arsenal'' sample_matches) \<and>
   length (teamMatches ''Chelsea'' (sample_matches @ sample_matches)) = 4"
proof -
  have n: "''Arsenal'' \<noteq> []" "''Chelsea'' \<noteq> []" by simp_all
  have h: "\<forall>m \<in> set sample_matches. kickoff m \<noteq> Invalid_Date"
    by (simp add: sample_matches_def fixture_def instant_def Invalid_Date_def)
  then have h2: "\<forall>m \<in> set (sample_matches @ sample_matches). kickoff m \<noteq> Invalid_Date"
    by simp
  have e: "teamMatches ''Arsenal'' sample_matches =
     [fixture 4 arsenal getafe Premier_League (instant 1741183500000) LIVE,
      fixture 3 chelsea arsenal Premier_League (instant 1741053900000) FINISHED,
      fixture 1 arsenal chelsea Premier_League (instant 1741140300000) FINISHED]"
    by (simp add: sample_matches_def eval_sort)
  have q: "length (filter (plays ''Chelsea'') (sample_matches @ sample_matches)) = 6"
    by (simp add: sample_matches_def plays_def fixture_def arsenal_def chelsea_def getafe_def)
  have s: "sorted_wrt finished_last_order (teamMatches ''Arsenal'' sample_matches)"
    by (rule teamMatches_spotlight [OF n(1) h, THEN conjunct2, THEN conjunct2, THEN conjunct1])
  have "length (teamMatches ''Chelsea'' (sample_matches @ sample_matches)) = min 4 6"
    by (simp only: q
        teamMatches_spotlight [OF n(2) h2, THEN conjunct2, THEN conjunct2, THEN conjunct2,
          THEN conjunct1])
  then have l: "length (teamMatches ''Chelsea'' (sample_matches @ sample_matches)) = 4"
    by simp
  from e s l show ?thesis by (intro conjI)
qed

text \<open>
  The claim as stated fails in two places: with an Invalid Date among the kickoffs
  two \<open>FINISHED\<close> matches stay in decreasing order of kickoff, and for the empty
  team name the guard \<open>if (!selectedTeam) return []\<close> answers the empty list even
  when a team of that name plays.
\<close>

theorem teamMatches_counterexample:
  "teamMatches ''Arsenal'' invalid_matches = invalid_matches \<and>
   status (invalid_matches ! 0) = FINISHED \<and> status (invalid_matches ! 2) = FINISHED \<and>
   date_lt (kickoff (invalid_matches ! 2)) (kickoff (invalid_matches ! 0)) \<and>
   plays [] (fixture 5 nameless arsenal Serie_A (instant 1741140300000) UPCOMING) \<and>
   teamMatches [] [fixture 5 nameless arsenal Serie_A (instant 1741140300000) UPCOMING] = []"
  by (simp add: invalid_matches_def eval_sort date_lt_def num_lt_def nameless_def)

section \<open>The parser throws on short arrays only\<close>

lemma parseWIBDate_cases:
  "parseWIBDate rt dateStr timeStr =
     (if too_few_fields dateStr timeStr then Inl (TypeError rt)
      else Inr (parsed rt dateStr timeStr))"
  by (simp add: parseWIBDate_def too_few_fields_def parsed_def element_def Let_def)

lemma map_matches_throws:
  assumes "m \<in> set ms" and "too_few_fields (date m) (time m)"
  shows "map_matches rt now l ms = Inl (TypeError rt)"
  using assms
  by (induction ms) (auto simp: parseWIBDate_cases split: sum.splits)

lemma map_matches_returns:
  assumes "\<forall>m \<in> set ms. \<not> too_few_fields (date m) (time m)"
  shows "map_matches rt now l ms = Inr (map (ingest rt now l) ms)"
  using assms
  by (induction ms) (auto simp: parseWIBDate_cases ingest_def)

lemma map_matches_cases:
  "map_matches rt now l ms =
     (if \<exists>m \<in> set ms. too_few_fields (date m) (time m) then Inl (TypeError rt)
      else Inr (map (ingest rt now l) ms))"
  using map_matches_throws [of _ ms rt now l] map_matches_returns [of ms rt now l]
  by auto

section \<open>One failing league fails the load\<close>

lemma league_keys_all: "l \<in> set league_keys"
  by (cases l) (simp_all add: league_keys_def)

lemma Promise_all_rejects:
  assumes "l \<in> set keys" and "task l = Inl e"
  shows "\<exists>l' e'. task l' = Inl e' \<and> Promise_all settled task keys = Inl e'"
proof -
  let ?rs = "List.map_filter (\<lambda>l. rejection (task l)) (settled @ keys)"
  have "e \<in> set ?rs"
    using assms by (force simp: List.map_filter_def rejection_def image_iff)
  then obtain e' es where c: "?rs = e' # es"
    by (cases ?rs) auto
  then have "e' \<in> set ?rs" by simp
  then obtain l' where "rejection (task l') = Some e'"
    by (auto simp: List.map_filter_def)
  then have "task l' = Inl e'"
    by (simp add: rejection_def split: sum.splits)
  moreover have "Promise_all settled task keys = Inl e'"
    using c by (simp add: Promise_all_def)
  ultimately show ?thesis by blast
qed


lemma load_league_rejected:
  assumes "load_league rt fetch now l = Inl e"
  shows "matches (load rt fetch now settled cancelled st) = matches st \<and>
         (\<not> cancelled \<longrightarrow>
            (\<exists>l' e'. load_league rt fetch now l' = Inl e' \<and>
               error (load rt fetch now settled cancelled st)
                 = Some (case message e' of Some s \<Rightarrow> s | None \<Rightarrow> ''Terjadi kesalahan'')) \<and>
            \<not> loading (load rt fetch now settled cancelled st))"
proof -
  obtain l' e' where "load_league rt fetch now l' = Inl e'"
    and "Promise_all settled (load_league rt fetch now) league_keys = Inl e'"
    using Promise_all_rejects [of l league_keys "load_league rt fetch now" e settled]
      league_keys_all [of l] assms by blast
  then show ?thesis by (auto simp: load_def)
qed



section \<open>Evaluations of the parser\<close>

lemmas eval_parse =
  parseWIBDate_def element_def iso_string_def padStart_def engine_def
  engine_Number_def engine_toString_def engine_Date_parse_def field_def punctuation_def
  days_from_civil_def digits_value_def digit_value_def is_digit_def new_Date_def
  TimeClip_def max_time_def Invalid_Date_def instant_def Let_def


lemma parse_unpadded:
  "parseWIBDate engine ''5/3/2025'' ''9:05'' = Inr (instant 1741140300000)"
  by (simp add: eval_parse digits_of.simps)

lemma parse_letters:
  "parseWIBDate engine ''zz/zz/zzzz'' ''10:00'' = Inr Invalid_Date"
  by (simp add: eval_parse digits_of.simps)


lemma parse_dashes:
  "parseWIBDate engine ''05-03-2025'' ''09:05'' = Inl (TypeError engine)"
  by (simp add: eval_parse)


lemmas eval_load =
  load_def Promise_all_def load_league_def rejection_def fulfilment_def league_keys_def
  document_def raw_def to_Match_def initial_state_def

section \<open>Aggregate load failure\<close>




section \<open>Malformed records\<close>

text \<open>
  C2 (as amended). The parser checks no shape and raises no \<open>ParseError\<close>: it
  throws, the engine's \<open>TypeError\<close>, exactly when the date string has fewer than
  three fields between \<open>/\<close> or the time string fewer than two fields between \<open>:\<close>.
  A league document that holds such a record makes the task of its league reject,
  and the load then commits no match and sets the error. When no record of a
  document throws, the task of its league returns every record of the document,
  whatever its strings, with the Date that the runtime makes of its padded fields.
\<close>

theorem malformed_records:
  assumes "fetch (PUBLIC_FILES l) = Inr res" and "ok res"
    and "json res = Inr doc" and "raw_matches doc = Some ms"
  shows "isl (parseWIBDate rt dateStr timeStr) = too_few_fields dateStr timeStr \<and>
         load_league rt fetch now l =
           (if \<exists>m \<in> set ms. too_few_fields (date m) (time m) then Inl (TypeError rt)
            else Inr (map (ingest rt now l) ms)) \<and>
         ((\<exists>m \<in> set ms. too_few_fields (date m) (time m)) \<longrightarrow>
            matches (load rt fetch now settled cancelled initial_state) = [] \<and>
            (\<not> cancelled \<longrightarrow>
               error (load rt fetch now settled cancelled initial_state) \<noteq> None))"
proof -
  have p: "isl (parseWIBDate rt dateStr timeStr) = too_few_fields dateStr timeStr"
    by (simp add: parseWIBDate_cases)
  have t: "load_league rt fetch now l = map_matches rt now l ms"
    using assms by (simp add: load_league_def)
  have c: "load_league rt fetch now l =
           (if \<exists>m \<in> set ms. too_few_fields (date m) (time m) then Inl (TypeError rt)
            else Inr (map (ingest rt now l) ms))"
    unfolding t by (rule map_matches_cases)
  have f: "matches (load rt fetch now settled cancelled initial_state) = [] \<and>
            (\<not> cancelled \<longrightarrow>
               error (load rt fetch now settled cancelled initial_state) \<noteq> None)"
    if "\<exists>m \<in> set ms. too_few_fields (date m) (time m)"
  proof -
    have "load_league rt fetch now l = Inl (TypeError rt)"
      using c that by simp
    then show ?thesis
      using load_league_rejected [of rt fetch now l "TypeError rt" settled cancelled
          initial_state]
      by (auto simp: initial_state_def)
  qed
  from p c f show ?thesis by blast
qed

theorem malformed_records_witness:
  "load_league engine (serves [raw 2 ''zz/zz/zzzz'' ''10:00'']) (instant 1741140300000)
     Premier_League
     = Inr [ingest engine (instant 1741140300000) Premier_League
              (raw 2 ''zz/zz/zzzz'' ''10:00'')] \<and>
   matches (load engine (serves [raw 3 ''05-03-2025'' ''09:05'']) (instant 1741140300000)
              [] False initial_state) = [] \<and>
   error (load engine (serves [raw 3 ''05-03-2025'' ''09:05'']) (instant 1741140300000)
            [] False initial_state) = Some ''Cannot read properties of undefined''"
proof -
  let ?now = "instant 1741140300000"
  let ?doc = "\<lambda>ms. \<lparr>metadata = Some \<lparr>metadata_league = ''League'', timezone = None\<rparr>,
                      raw_matches = Some ms\<rparr>"
  have a: "serves ms (PUBLIC_FILES Premier_League) = Inr (document ms)"
    "ok (document ms)" "json (document ms) = Inr (?doc ms)"
    "raw_matches (?doc ms) = Some ms" for ms
    by (simp_all add: serves_def document_def)
  have l: "\<not> too_few_fields ''zz/zz/zzzz'' ''10:00''"
    using parse_letters by (simp add: parseWIBDate_cases split: if_splits)
  have s: "too_few_fields ''05-03-2025'' ''09:05''"
    using parse_dashes by (simp add: parseWIBDate_cases split: if_splits)
  have e: "error (load engine (serves [raw 3 ''05-03-2025'' ''09:05'']) ?now
            [] False initial_state) = Some ''Cannot read properties of undefined''"
    by (simp add: serves_def eval_load parse_dashes) (simp add: engine_def)
  note z = malformed_records [where fetch = "serves [raw 2 ''zz/zz/zzzz'' ''10:00'']"
      and l = Premier_League and rt = engine and now = ?now and settled = "[]"
      and cancelled = False, OF a [of "[raw 2 ''zz/zz/zzzz'' ''10:00'']"]]
  note d = malformed_records [where fetch = "serves [raw 3 ''05-03-2025'' ''09:05'']"
      and l = Premier_League and rt = engine and now = ?now and settled = "[]"
      and cancelled = False, OF a [of "[raw 3 ''05-03-2025'' ''09:05'']"]]
  have r: "date (raw i x y) = x" "time (raw i x y) = y" for i x y
    by (simp_all add: raw_def)
  have 1: "load_league engine (serves [raw 2 ''zz/zz/zzzz'' ''10:00'']) ?now Premier_League
     = Inr [ingest engine ?now Premier_League (raw 2 ''zz/zz/zzzz'' ''10:00'')]"
    using z l by (simp add: r)
  have 2: "matches (load engine (serves [raw 3 ''05-03-2025'' ''09:05'']) ?now
              [] False initial_state) = []"
    using d s by (simp add: r)
  from 1 2 e show ?thesis by (intro conjI)
qed

text \<open>
  The claim as stated fails: a date and a time that are not zero-padded are
  parsed to a valid instant, and a record whose date consists of letters gets the
  Invalid Date as kickoff and enters the collection, classified \<open>FINISHED\<close>, with
  no error.
\<close>

theorem malformed_records_counterexample:
  "parseWIBDate engine ''5/3/2025'' ''9:05'' = Inr (instant 1741140300000) \<and>
   parseWIBDate engine ''zz/zz/zzzz'' ''10:00'' = Inr Invalid_Date \<and>
   load engine (serves [raw 2 ''zz/zz/zzzz'' ''10:00'']) (instant 1741140300000)
     [] False initial_state
     = \<lparr>matches = [to_Match (raw 2 ''zz/zz/zzzz'' ''10:00'') Premier_League
                      Invalid_Date FINISHED],
        loading = False, error = None\<rparr>"
proof -
  have "load engine (serves [raw 2 ''zz/zz/zzzz'' ''10:00'']) (instant 1741140300000)
     [] False initial_state
     = \<lparr>matches = [to_Match (raw 2 ''zz/zz/zzzz'' ''10:00'') Premier_League
                      Invalid_Date FINISHED],
        loading = False, error = None\<rparr>"
    by (simp add: serves_def eval_load parse_letters calculateStatus_Invalid_kickoff)
  with parse_unpadded parse_letters show ?thesis by (intro conjI)
qed

section \<open>Totality of parsing and classification\<close>





end
